theory Spec2Isabelle
  imports Main "HOL-Library.Finite_Map"
begin

section \<open>The stock registry of \<^verbatim>\<open>registry.py\<close>\<close>

text \<open>
  The module keeps the basic data of all stocks in one dictionary: class \<^verbatim>\<open>Registry\<close>
  is a \<^verbatim>\<open>dict\<close> whose key \<^verbatim>\<open>'Errors'\<close> holds a \<^verbatim>\<open>RegistryErrorDict\<close> and whose other
  keys are ISINs bound to the dictionary made by \<^verbatim>\<open>_registry_row_from_csv\<close>.

  Strings are \<^typ>\<open>string\<close>, one \<^typ>\<open>char\<close> for one code point, so the model covers the
  strings whose code points are below 256. Exceptions are values of \<open>py_error\<close>; a
  method that mutates \<^verbatim>\<open>self\<close> takes the registry and returns the new one.
\<close>

subsection \<open>Exceptions\<close>

datatype py_error = KeyError | ValueError | InvalidOperation

definition bind :: "py_error + 'a \<Rightarrow> ('a \<Rightarrow> py_error + 'b) \<Rightarrow> py_error + 'b" where
  "bind m f = (case m of Inl e \<Rightarrow> Inl e | Inr x \<Rightarrow> f x)"

subsection \<open>Characters and digit strings\<close>

definition isdigit :: "char \<Rightarrow> bool" where
  "isdigit c = (c \<in> set ''0123456789'')"

definition digit_value :: "char \<Rightarrow> nat" where
  "digit_value c =
     (case map_of (zip ''0123456789'' [0, 1, 2, 3, 4, 5, 6, 7, 8, 9]) c of
        Some d \<Rightarrow> d
      | None \<Rightarrow> 0)"

text \<open>The number a string of decimal digits denotes, most significant digit first.\<close>

definition digits_to_nat :: "string \<Rightarrow> nat" where
  "digits_to_nat ds = foldl (\<lambda>acc c. 10 * acc + digit_value c) 0 ds"

text \<open>
  \<^verbatim>\<open>str.strip()\<close> removes the characters for which \<^verbatim>\<open>str.isspace\<close> holds: below 256
  these are tab to carriage return, the four separators \<^verbatim>\<open>0x1c\<close> to \<^verbatim>\<open>0x1f\<close>, the space,
  \<^verbatim>\<open>0x85\<close> and \<^verbatim>\<open>0xa0\<close>.
\<close>

definition isspace :: "char \<Rightarrow> bool" where
  "isspace c = (c \<in> set [CHR 0x09, CHR 0x0A, CHR 0x0B, CHR 0x0C, CHR 0x0D,
                          CHR 0x1C, CHR 0x1D, CHR 0x1E, CHR 0x1F, CHR 0x20, CHR 0x85, CHR 0xA0])"

definition strip :: "string \<Rightarrow> string" where
  "strip s = rev (dropWhile isspace (rev (dropWhile isspace s)))"

text \<open>
  \<^verbatim>\<open>int(s)\<close> skips a narrower set of blanks: the C whitespace characters, and the
  non-ASCII spaces, which it first rewrites to a space.
\<close>

definition int_isspace :: "char \<Rightarrow> bool" where
  "int_isspace c = (c \<in> set [CHR 0x09, CHR 0x0A, CHR 0x0B, CHR 0x0C, CHR 0x0D,
                              CHR 0x20, CHR 0x85, CHR 0xA0])"

fun split_sign :: "string \<Rightarrow> bool \<times> string" where
  "split_sign [] = (False, [])"
| "split_sign (c # cs) =
     (if c = CHR ''-'' then (True, cs) else if c = CHR ''+'' then (False, cs)
      else (False, c # cs))"

text \<open>ASCII lower case, for the case-insensitive words of a decimal literal.\<close>

definition lower :: "char \<Rightarrow> char" where
  "lower c =
     (case map_of (zip ''ABCDEFGHIJKLMNOPQRSTUVWXYZ'' ''abcdefghijklmnopqrstuvwxyz'') c of
        Some l \<Rightarrow> l
      | None \<Rightarrow> c)"

subsection \<open>\<^verbatim>\<open>int(s)\<close>\<close>

text \<open>
  Base-ten \<^verbatim>\<open>int\<close> of a string: blanks, an optional sign, then digits in which single
  underscores may stand between two digits, then blanks. Anything else raises
  \<^verbatim>\<open>ValueError\<close>. The number has no bound; the cap that later interpreters put on the
  count of digits, also with \<^verbatim>\<open>ValueError\<close>, is left out.
\<close>

fun grouped_digits :: "string \<Rightarrow> bool" where
  "grouped_digits [] = False"
| "grouped_digits [c] = isdigit c"
| "grouped_digits (c # d # cs) =
     (isdigit c \<and> (if d = CHR ''_'' then grouped_digits cs else grouped_digits (d # cs)))"

definition py_int :: "string \<Rightarrow> py_error + int" where
  "py_int s =
     (let (neg, u) = split_sign (dropWhile int_isspace s);
          body = takeWhile (\<lambda>c. isdigit c \<or> c = CHR ''_'') u;
          rest = dropWhile (\<lambda>c. isdigit c \<or> c = CHR ''_'') u
      in if grouped_digits body \<and> list_all int_isspace rest
         then Inr ((if neg then - 1 else 1) *
                   int (digits_to_nat (filter (\<lambda>c. c \<noteq> CHR ''_'') body)))
         else Inl ValueError)"

subsection \<open>\<^verbatim>\<open>decimal.Decimal(s)\<close>\<close>

text \<open>
  A \<^verbatim>\<open>Decimal\<close> is a sign, a coefficient and an exponent, or an infinity, or a quiet or
  signalling NaN with a payload. Nothing is rounded when one is built from a string.
\<close>

datatype Decimal =
    Finite bool nat int
  | Infinity bool
  | NaN bool bool nat

text \<open>
  The exponent of a literal, after the \<^verbatim>\<open>E\<close>: an optional sign and one digit or more.
\<close>

definition parse_exponent :: "string \<Rightarrow> int option" where
  "parse_exponent s =
     (let (neg, ds) = split_sign s
      in if ds \<noteq> [] \<and> list_all isdigit ds
         then Some ((if neg then - 1 else 1) * int (digits_to_nat ds))
         else None)"

text \<open>
  The number part: digits, an optional point and digits, with a digit on one side of
  the point at least, and an optional exponent. The result is the integer digits, the
  fraction digits and the exponent.
\<close>

definition parse_number :: "string \<Rightarrow> (string \<times> string \<times> int) option" where
  "parse_number body =
     (let intpart = takeWhile isdigit body;
          r1 = dropWhile isdigit body;
          (fracpart, r2) =
             (case r1 of
                [] \<Rightarrow> ([], [])
              | c # cs \<Rightarrow> if c = CHR ''.'' then (takeWhile isdigit cs, dropWhile isdigit cs)
                          else ([], r1))
      in if intpart = [] \<and> fracpart = [] then None
         else (case r2 of
                 [] \<Rightarrow> Some (intpart, fracpart, 0)
               | c # cs \<Rightarrow>
                   if c = CHR ''e'' \<or> c = CHR ''E''
                   then (case parse_exponent cs of
                           None \<Rightarrow> None
                         | Some x \<Rightarrow> Some (intpart, fracpart, x))
                   else None))"

text \<open>
  \<^verbatim>\<open>import decimal\<close> loads the C implementation of the module, which builds the
  decimal in a context of the largest precision and exponents and raises
  \<^verbatim>\<open>InvalidOperation\<close> for a literal that does not fit it exactly. The limits are the
  module's constants \<^verbatim>\<open>MAX_PREC\<close>, \<^verbatim>\<open>MAX_EMAX\<close> and \<^verbatim>\<open>MIN_ETINY\<close>, here with their values
  on a 64-bit machine.
\<close>

definition MAX_PREC :: nat where
  "MAX_PREC = 999999999999999999"

definition MAX_EMAX :: int where
  "MAX_EMAX = 999999999999999999"

definition MIN_ETINY :: int where
  "MIN_ETINY = - 1999999999999999997"

text \<open>
  The digits of a coefficient are counted without its leading zeros, and zero has
  one digit.
\<close>

definition significant_digits :: "string \<Rightarrow> nat" where
  "significant_digits ds = max 1 (length (dropWhile (\<lambda>c. c = CHR ''0'') ds))"

text \<open>
  A number fits when the fraction and the coefficient have no more than \<^verbatim>\<open>MAX_PREC\<close>
  digits, the exponent of its leading digit is \<^verbatim>\<open>MAX_EMAX\<close> at most, and the exponent
  of its last digit is \<^verbatim>\<open>MIN_ETINY\<close> at least. Here \<open>x\<close> is the exponent as written.
\<close>

definition within_limits :: "string \<Rightarrow> string \<Rightarrow> int \<Rightarrow> bool" where
  "within_limits intpart fracpart x =
     (let exp = x - int (length fracpart);
          n = significant_digits (intpart @ fracpart)
      in length fracpart \<le> MAX_PREC \<and> n \<le> MAX_PREC \<and>
         exp + int n - 1 \<le> MAX_EMAX \<and> MIN_ETINY \<le> exp)"

text \<open>The payload of a NaN fits when it has no more than \<^verbatim>\<open>MAX_PREC\<close> digits.\<close>

definition payload_within_limits :: "string \<Rightarrow> bool" where
  "payload_within_limits ds = (length (dropWhile (\<lambda>c. c = CHR ''0'') ds) \<le> MAX_PREC)"

text \<open>
  The constructor strips the string, drops every underscore, and reads an optional
  sign followed by a number, an infinity or a NaN; a string of no such form, and a
  number or a payload beyond the limits, raises \<^verbatim>\<open>InvalidOperation\<close>. The coefficient
  is the integer digits followed by the fraction digits, and the exponent is lowered
  by the number of fraction digits.
\<close>

definition Decimal_of_str :: "string \<Rightarrow> py_error + Decimal" where
  "Decimal_of_str s =
     (let (neg, body) = split_sign (filter (\<lambda>c. c \<noteq> CHR ''_'') (strip s));
          low = map lower body
      in case parse_number body of
           Some (intpart, fracpart, x) \<Rightarrow>
             if within_limits intpart fracpart x
             then Inr (Finite neg (digits_to_nat (intpart @ fracpart))
                         (x - int (length fracpart)))
             else Inl InvalidOperation
         | None \<Rightarrow>
             if low = ''inf'' \<or> low = ''infinity'' then Inr (Infinity neg)
             else if take 3 low = ''nan'' \<and> list_all isdigit (drop 3 low) \<and>
                     payload_within_limits (drop 3 low)
               then Inr (NaN neg False (digits_to_nat (drop 3 low)))
             else if take 4 low = ''snan'' \<and> list_all isdigit (drop 4 low) \<and>
                     payload_within_limits (drop 4 low)
               then Inr (NaN neg True (digits_to_nat (drop 4 low)))
             else Inl InvalidOperation)"

subsection \<open>\<^verbatim>\<open>_string_to_decimal\<close>\<close>

text \<open>
  \<^verbatim>\<open>s.replace(',', '.')\<close> returns a new string and leaves \<^verbatim>\<open>s\<close> as it is. The source
  does not bind the result, so the string handed to \<^verbatim>\<open>Decimal\<close> is the argument itself.
\<close>

definition replace :: "char \<Rightarrow> char \<Rightarrow> string \<Rightarrow> string" where
  "replace old new s = map (\<lambda>c. if c = old then new else c) s"

definition string_to_decimal :: "string \<Rightarrow> py_error + Decimal" where
  "string_to_decimal s =
     (let discarded = (if CHR ''.'' \<notin> set s then replace CHR '','' CHR ''.'' s else s)
      in case Decimal_of_str s of
           Inr d \<Rightarrow> Inr d
         | Inl e \<Rightarrow> if e = InvalidOperation then Decimal_of_str ''0'' else Inl e)"

subsection \<open>Rows, stock records and the error dictionary\<close>

text \<open>A row of the CSV file, as the reader yields it: every column is a string.\<close>

record row =
  ISIN :: string
  Name :: string
  EPS :: string
  Months_in_Report :: string
  Report_Expiry_Date :: string
  Own_Investor_Link :: string
  Stock_Exchange_Link :: string

text \<open>The dictionary \<^verbatim>\<open>_registry_row_from_csv\<close> makes of a row.\<close>

record stock =
  stock_Name :: string
  stock_EPS :: Decimal
  stock_Months_in_Report :: string
  stock_Report_Expiry_Date :: string
  stock_Own_Investor_Link :: string
  stock_Stock_Exchange_Link :: string

record RegistryErrorDict =
  Errors_found :: bool
  Number_of_missing_ISINs :: int
  Faulty_ISINs :: "string set"
  Missing_names :: "string set"
  Faulty_months_in_report :: "string set"
  Faulty_report_expiry_dates :: "string set"

definition RegistryErrorDict_init :: RegistryErrorDict where
  "RegistryErrorDict_init =
     \<lparr>Errors_found = False, Number_of_missing_ISINs = 0, Faulty_ISINs = {},
      Missing_names = {}, Faulty_months_in_report = {}, Faulty_report_expiry_dates = {}\<rparr>"

text \<open>
  A value of the registry dictionary is the error dictionary or a stock record, and
  both live under string keys of the same dictionary.
\<close>

datatype entry = ErrorsEntry RegistryErrorDict | StockEntry stock

type_synonym Registry = "(string, entry) fmap"

definition Registry_init :: Registry where
  "Registry_init = fmupd ''Errors'' (ErrorsEntry RegistryErrorDict_init) fmempty"

definition len :: "Registry \<Rightarrow> nat" where
  "len self = fcard (fmdom self)"

subsection \<open>\<^verbatim>\<open>Registry._registry_row_is_addable\<close>\<close>

text \<open>
  Every recorded error is two statements on \<^verbatim>\<open>self['Errors']\<close>: the flag is set, then
  a counter or a set is changed. \<^verbatim>\<open>self['Errors']\<close> raises \<^verbatim>\<open>KeyError\<close> when the key is
  absent; when the key holds a stock record, the second statement raises it.
\<close>

definition record_error ::
  "(RegistryErrorDict \<Rightarrow> RegistryErrorDict) \<Rightarrow> Registry \<Rightarrow> py_error + Registry" where
  "record_error change self =
     (case fmlookup self ''Errors'' of
        Some (ErrorsEntry e) \<Rightarrow>
          Inr (fmupd ''Errors'' (ErrorsEntry (change (e\<lparr>Errors_found := True\<rparr>))) self)
      | Some (StockEntry r) \<Rightarrow> Inl KeyError
      | None \<Rightarrow> Inl KeyError)"

text \<open>
  The body of the first \<^verbatim>\<open>try\<close>: the months of the report, zero for the empty string,
  with \<^verbatim>\<open>ValueError\<close> raised by \<^verbatim>\<open>int\<close> or by the membership test.
\<close>

definition months_in_report :: "string \<Rightarrow> py_error + int" where
  "months_in_report s =
     bind (if s \<noteq> [] then py_int s else Inr 0)
       (\<lambda>months. if months \<notin> {0, 3, 6, 9, 12} then Inl ValueError else Inr months)"

text \<open>
  The date format is a setting of \<^verbatim>\<open>config.ini\<close>, which is not part of the module. The
  parameter \<open>date_format\<close> holds of the strings that \<^verbatim>\<open>strptime\<close> accepts with that
  format; for every other string \<^verbatim>\<open>strptime\<close> raises \<^verbatim>\<open>ValueError\<close>.
\<close>

definition strptime :: "(string \<Rightarrow> bool) \<Rightarrow> string \<Rightarrow> py_error + unit" where
  "strptime date_format s = (if date_format s then Inr () else Inl ValueError)"

definition registry_row_is_addable ::
  "(string \<Rightarrow> bool) \<Rightarrow> Registry \<Rightarrow> row \<Rightarrow> py_error + (bool \<times> Registry)" where
  "registry_row_is_addable date_format self row =
     (if ISIN row = [] then
        bind (record_error
                (\<lambda>e. e\<lparr>Number_of_missing_ISINs := Number_of_missing_ISINs e + 1\<rparr>) self)
          (\<lambda>self. Inr (False, self))
      else if length (ISIN row) \<noteq> 12 then
        bind (record_error (\<lambda>e. e\<lparr>Faulty_ISINs := insert (ISIN row) (Faulty_ISINs e)\<rparr>) self)
          (\<lambda>self. Inr (False, self))
      else
        bind (if Name row = []
              then record_error
                     (\<lambda>e. e\<lparr>Missing_names := insert (ISIN row) (Missing_names e)\<rparr>) self
              else Inr self)
          (\<lambda>self.
        bind (case months_in_report (Months_in_Report row) of
                Inr months \<Rightarrow> Inr self
              | Inl err \<Rightarrow>
                  if err = ValueError
                  then record_error
                         (\<lambda>e. e\<lparr>Faulty_months_in_report :=
                                  insert (ISIN row) (Faulty_months_in_report e)\<rparr>) self
                  else Inl err)
          (\<lambda>self.
        bind (case (if Report_Expiry_Date row \<noteq> []
                    then strptime date_format (Report_Expiry_Date row) else Inr ()) of
                Inr u \<Rightarrow> Inr self
              | Inl err \<Rightarrow>
                  if err = ValueError
                  then record_error
                         (\<lambda>e. e\<lparr>Faulty_report_expiry_dates :=
                                  insert (ISIN row) (Faulty_report_expiry_dates e)\<rparr>) self
                  else Inl err)
          (\<lambda>self. Inr (True, self)))))"

text \<open>
  What the check does to the error dictionary \<open>e\<close> for a row whose ISIN has twelve
  characters: each of the three later rules adds the ISIN to its own set.
\<close>

abbreviation soft_errors ::
  "(string \<Rightarrow> bool) \<Rightarrow> row \<Rightarrow> RegistryErrorDict \<Rightarrow> RegistryErrorDict" where
  "soft_errors date_format row e \<equiv>
     e\<lparr>Errors_found := Errors_found e \<or> Name row = [] \<or>
          months_in_report (Months_in_Report row) = Inl ValueError \<or>
          (Report_Expiry_Date row \<noteq> [] \<and> \<not> date_format (Report_Expiry_Date row)),
       Missing_names :=
         (if Name row = [] then insert (ISIN row) (Missing_names e) else Missing_names e),
       Faulty_months_in_report :=
         (if months_in_report (Months_in_Report row) = Inl ValueError
          then insert (ISIN row) (Faulty_months_in_report e)
          else Faulty_months_in_report e),
       Faulty_report_expiry_dates :=
         (if Report_Expiry_Date row \<noteq> [] \<and> \<not> date_format (Report_Expiry_Date row)
          then insert (ISIN row) (Faulty_report_expiry_dates e)
          else Faulty_report_expiry_dates e)\<rparr>"

text \<open>The five conditions under which the check records an error for a row.\<close>

abbreviation row_has_error :: "(string \<Rightarrow> bool) \<Rightarrow> row \<Rightarrow> bool" where
  "row_has_error date_format row \<equiv>
     ISIN row = [] \<or> length (ISIN row) \<noteq> 12 \<or> Name row = [] \<or>
     months_in_report (Months_in_Report row) = Inl ValueError \<or>
     (Report_Expiry_Date row \<noteq> [] \<and> \<not> date_format (Report_Expiry_Date row))"

subsection \<open>\<^verbatim>\<open>Registry._registry_row_from_csv\<close>\<close>

definition registry_row_from_csv :: "row \<Rightarrow> py_error + stock" where
  "registry_row_from_csv row =
     bind (string_to_decimal (EPS row))
       (\<lambda>eps. Inr \<lparr>stock_Name = Name row,
                   stock_EPS = eps,
                   stock_Months_in_Report = Months_in_Report row,
                   stock_Report_Expiry_Date = Report_Expiry_Date row,
                   stock_Own_Investor_Link = Own_Investor_Link row,
                   stock_Stock_Exchange_Link = Stock_Exchange_Link row\<rparr>)"

subsection \<open>\<^verbatim>\<open>Registry.load_from_file\<close>\<close>

text \<open>
  The dictionary comprehension goes through the rows the reader yields, in order. For
  each row it calls \<^verbatim>\<open>_registry_row_is_addable\<close>, which may change \<^verbatim>\<open>self['Errors']\<close>, and
  for an addable row it stores the stock record under the ISIN in a new dictionary,
  a later row replacing an earlier one of the same ISIN.
\<close>

fun comprehension ::
  "(string \<Rightarrow> bool) \<Rightarrow> row list \<Rightarrow> Registry \<Rightarrow> Registry \<Rightarrow>
     py_error + (Registry \<times> Registry)" where
  "comprehension date_format [] self new = Inr (self, new)"
| "comprehension date_format (row # rows) self new =
     bind (registry_row_is_addable date_format self row)
       (\<lambda>(addable, self).
          if addable
          then bind (registry_row_from_csv row)
                 (\<lambda>r. comprehension date_format rows self (fmupd (ISIN row) (StockEntry r) new))
          else comprehension date_format rows self new)"

text \<open>The line that \<^verbatim>\<open>load_from_file\<close> writes to the log when it is done.\<close>

datatype log_record =
    Info_new_ISIN_loaded nat
  | Error_errors_found
  | Error_no_ISIN_loaded

definition errors_found_of :: "Registry \<Rightarrow> py_error + bool" where
  "errors_found_of self =
     (case fmlookup self ''Errors'' of
        Some (ErrorsEntry e) \<Rightarrow> Inr (Errors_found e)
      | Some (StockEntry r) \<Rightarrow> Inl KeyError
      | None \<Rightarrow> Inl KeyError)"

text \<open>
  \<^verbatim>\<open>self.update\<close> adds the new dictionary to the registry, then the length of the
  registry, the error dictionary under \<^verbatim>\<open>'Errors'\<close> included, selects the log line. The
  rows of the file are the parameter \<open>rows\<close>.
\<close>

definition load_from_file ::
  "(string \<Rightarrow> bool) \<Rightarrow> row list \<Rightarrow> Registry \<Rightarrow> py_error + (log_record \<times> Registry)" where
  "load_from_file date_format rows self =
     bind (comprehension date_format rows self fmempty)
       (\<lambda>(self, new).
          let self = self ++\<^sub>f new
          in if len self \<noteq> 0 then
               bind (errors_found_of self)
                 (\<lambda>found. if \<not> found then Inr (Info_new_ISIN_loaded (len self), self)
                           else Inr (Error_errors_found, self))
             else Inr (Error_no_ISIN_loaded, self))"

section \<open>Properties\<close>

subsection \<open>Auxiliary facts\<close>

lemma bind_Inr [simp]: "bind (Inr x) f = f x"
  by (simp add: bind_def)

lemma bind_Inl [simp]: "bind (Inl e) f = Inl e"
  by (simp add: bind_def)

lemma fmupd_same: "fmlookup m k = Some v \<Longrightarrow> fmupd k v m = m"
  by (rule fmap_ext) auto

lemma record_error_bound:
  "fmlookup self ''Errors'' = Some (ErrorsEntry e) \<Longrightarrow>
   record_error change self =
     Inr (fmupd ''Errors'' (ErrorsEntry (change (e\<lparr>Errors_found := True\<rparr>))) self)"
  by (simp add: record_error_def)

text \<open>\<^verbatim>\<open>int\<close> and the months check raise nothing but \<^verbatim>\<open>ValueError\<close>.\<close>

lemma py_int_raises: "py_int s = Inl err \<Longrightarrow> err = ValueError"
  by (auto simp: py_int_def Let_def split: prod.splits if_splits)

lemma months_in_report_raises: "months_in_report s = Inl err \<Longrightarrow> err = ValueError"
  by (auto simp: months_in_report_def bind_def split: sum.splits if_splits dest: py_int_raises)

lemma months_in_report_cases:
  "months_in_report s =
     (case (if s = [] then Inr 0 else py_int s) of
        Inl err \<Rightarrow> Inl ValueError
      | Inr months \<Rightarrow> if months \<in> {0, 3, 6, 9, 12} then Inr months else Inl ValueError)"
  by (auto simp: months_in_report_def bind_def split: sum.splits dest: py_int_raises)

lemma months_in_report_faulty_iff:
  "months_in_report s = Inl ValueError \<longleftrightarrow>
     (case (if s = [] then Inr 0 else py_int s) of
        Inl err \<Rightarrow> True
      | Inr months \<Rightarrow> months \<notin> {0, 3, 6, 9, 12})"
  unfolding months_in_report_cases [of s] by (simp split: sum.splits)

lemma admissible_row:
  assumes "length (ISIN row) = 12"
    and "fmlookup self ''Errors'' = Some (ErrorsEntry e)"
  shows "registry_row_is_addable date_format self row =
           Inr (True, fmupd ''Errors'' (ErrorsEntry (soft_errors date_format row e)) self)"
  using assms
  by (cases e)
     (auto simp: registry_row_is_addable_def record_error_bound strptime_def fmupd_same
        split: sum.splits dest: months_in_report_raises)

lemma missing_isin_row:
  assumes "ISIN row = []" and "fmlookup self ''Errors'' = Some (ErrorsEntry e)"
  shows "registry_row_is_addable date_format self row =
           Inr (False, fmupd ''Errors''
                  (ErrorsEntry (e\<lparr>Errors_found := True,
                                  Number_of_missing_ISINs := Number_of_missing_ISINs e + 1\<rparr>))
                  self)"
  using assms by (simp add: registry_row_is_addable_def record_error_bound)

lemma faulty_isin_row:
  assumes "ISIN row \<noteq> []" and "length (ISIN row) \<noteq> 12"
    and "fmlookup self ''Errors'' = Some (ErrorsEntry e)"
  shows "registry_row_is_addable date_format self row =
           Inr (False, fmupd ''Errors''
                  (ErrorsEntry (e\<lparr>Errors_found := True,
                                  Faulty_ISINs := insert (ISIN row) (Faulty_ISINs e)\<rparr>))
                  self)"
  using assms by (simp add: registry_row_is_addable_def record_error_bound)

text \<open>
  \<^verbatim>\<open>Decimal\<close> raises nothing but \<^verbatim>\<open>InvalidOperation\<close>, and \<^verbatim>\<open>Decimal('0')\<close> is the zero
  of coefficient 0 and exponent 0, so \<^verbatim>\<open>_string_to_decimal\<close> and the conversion of a row
  always return.
\<close>

lemmas limit_defs =
  within_limits_def significant_digits_def payload_within_limits_def
  MAX_PREC_def MAX_EMAX_def MIN_ETINY_def

lemma Decimal_of_str_raises: "Decimal_of_str s = Inl err \<Longrightarrow> err = InvalidOperation"
  by (auto simp: Decimal_of_str_def Let_def split: prod.splits option.splits if_splits)

lemma Decimal_of_str_zero: "Decimal_of_str ''0'' = Inr (Finite False 0 0)"
  by (simp add: Decimal_of_str_def strip_def isspace_def parse_number_def isdigit_def
        digits_to_nat_def digit_value_def limit_defs)

lemma string_to_decimal_eq:
  "string_to_decimal s =
     Inr (case Decimal_of_str s of Inr d \<Rightarrow> d | Inl err \<Rightarrow> Finite False 0 0)"
  by (auto simp: string_to_decimal_def Let_def Decimal_of_str_zero split: sum.splits
        dest: Decimal_of_str_raises)

lemma registry_row_from_csv_eq:
  "registry_row_from_csv row =
     Inr \<lparr>stock_Name = Name row,
          stock_EPS = (case Decimal_of_str (EPS row) of Inr d \<Rightarrow> d | Inl err \<Rightarrow> Finite False 0 0),
          stock_Months_in_Report = Months_in_Report row,
          stock_Report_Expiry_Date = Report_Expiry_Date row,
          stock_Own_Investor_Link = Own_Investor_Link row,
          stock_Stock_Exchange_Link = Stock_Exchange_Link row\<rparr>"
  by (simp add: registry_row_from_csv_def string_to_decimal_eq)

text \<open>
  The check, the comprehension and the load in a registry that holds an error
  dictionary under \<^verbatim>\<open>'Errors'\<close>: none of them raises, the check answers whether the
  ISIN has twelve characters, and the new dictionary holds stock records under
  the twelve-character ISINs of the rows.
\<close>

lemma row_is_addable_result:
  assumes "fmlookup self ''Errors'' = Some (ErrorsEntry e)"
  shows "\<exists>e'. registry_row_is_addable date_format self row =
            Inr (length (ISIN row) = 12, fmupd ''Errors'' (ErrorsEntry e') self) \<and>
          (Errors_found e' \<longleftrightarrow> Errors_found e \<or> row_has_error date_format row)"
proof (cases "ISIN row = []")
  case True
  then show ?thesis using missing_isin_row [OF True assms, of date_format] by auto
next
  case False
  show ?thesis
  proof (cases "length (ISIN row) = 12")
    case True
    then show ?thesis using admissible_row [OF True assms, of date_format] False by auto
  next
    case n12: False
    then show ?thesis using faulty_isin_row [OF False n12 assms, of date_format] by auto
  qed
qed

lemma comprehension_result:
  assumes "fmlookup self ''Errors'' = Some (ErrorsEntry e)"
  shows "\<exists>e' new'. comprehension date_format rows self new =
            Inr (fmupd ''Errors'' (ErrorsEntry e') self, new') \<and>
          (Errors_found e' \<longleftrightarrow> Errors_found e \<or> (\<exists>row \<in> set rows. row_has_error date_format row)) \<and>
          fmdom new' = fmdom new |\<union>| fset_of_list (filter (\<lambda>k. length k = 12) (map ISIN rows)) \<and>
          (\<forall>k. length k \<noteq> 12 \<longrightarrow> fmlookup new' k = fmlookup new k) \<and>
          (\<forall>k v. fmlookup new' k = Some v \<longrightarrow>
                   fmlookup new k = Some v \<or> (\<exists>r. v = StockEntry r))"
  using assms
proof (induction rows arbitrary: self e new)
  case Nil
  then show ?case by (intro exI [of _ e] exI [of _ new]) (simp add: fmupd_same)
next
  case (Cons row rows)
  obtain e1 where step: "registry_row_is_addable date_format self row =
            Inr (length (ISIN row) = 12, fmupd ''Errors'' (ErrorsEntry e1) self)"
    and e1: "Errors_found e1 \<longleftrightarrow> Errors_found e \<or> row_has_error date_format row"
    using row_is_addable_result [OF Cons.prems, of date_format row] by blast
  let ?self1 = "fmupd ''Errors'' (ErrorsEntry e1) self"
  have bound1: "fmlookup ?self1 ''Errors'' = Some (ErrorsEntry e1)" by simp
  obtain r where r: "registry_row_from_csv row = Inr r"
    using registry_row_from_csv_eq by blast
  let ?new1 = "if length (ISIN row) = 12 then fmupd (ISIN row) (StockEntry r) new else new"
  have unfold: "comprehension date_format (row # rows) self new =
                comprehension date_format rows ?self1 ?new1"
    by (simp add: step r)
  from Cons.IH [OF bound1, of ?new1] obtain e' new' where
    res: "comprehension date_format rows ?self1 ?new1 = Inr (fmupd ''Errors'' (ErrorsEntry e') ?self1, new')"
    and ef: "Errors_found e' \<longleftrightarrow> Errors_found e1 \<or> (\<exists>row \<in> set rows. row_has_error date_format row)"
    and dom: "fmdom new' = fmdom ?new1 |\<union>| fset_of_list (filter (\<lambda>k. length k = 12) (map ISIN rows))"
    and other: "\<forall>k. length k \<noteq> 12 \<longrightarrow> fmlookup new' k = fmlookup ?new1 k"
    and stock: "\<forall>k v. fmlookup new' k = Some v \<longrightarrow>
                   fmlookup ?new1 k = Some v \<or> (\<exists>r. v = StockEntry r)"
    by blast
  have ef': "Errors_found e' \<longleftrightarrow>
               Errors_found e \<or> (\<exists>row \<in> set (row # rows). row_has_error date_format row)"
    using ef e1 by auto
  have dom': "fmdom new' = fmdom new |\<union>|
                fset_of_list (filter (\<lambda>k. length k = 12) (map ISIN (row # rows)))"
    using dom by auto
  have other': "\<forall>k. length k \<noteq> 12 \<longrightarrow> fmlookup new' k = fmlookup new k"
    using other by auto
  have stock': "\<forall>k v. fmlookup new' k = Some v \<longrightarrow>
                   fmlookup new k = Some v \<or> (\<exists>r. v = StockEntry r)"
    using stock by (auto split: if_splits)
  show ?case
    unfolding unfold res using ef' dom' other' stock' by (intro exI [of _ e'] exI [of _ new']) simp
qed

lemma load_from_file_result:
  assumes "fmlookup self ''Errors'' = Some (ErrorsEntry e)"
  shows "\<exists>e' new'.
           load_from_file date_format rows self =
             Inr (if Errors_found e' then Error_errors_found
                  else Info_new_ISIN_loaded (len (fmupd ''Errors'' (ErrorsEntry e') self ++\<^sub>f new')),
                  fmupd ''Errors'' (ErrorsEntry e') self ++\<^sub>f new') \<and>
           (Errors_found e' \<longleftrightarrow>
              Errors_found e \<or> (\<exists>row \<in> set rows. row_has_error date_format row)) \<and>
           fmdom new' = fset_of_list (filter (\<lambda>k. length k = 12) (map ISIN rows)) \<and>
           (\<forall>k v. fmlookup new' k = Some v \<longrightarrow> (\<exists>r. v = StockEntry r))"
proof -
  from comprehension_result [OF assms, of date_format rows fmempty] obtain e' new' where
    res: "comprehension date_format rows self fmempty =
            Inr (fmupd ''Errors'' (ErrorsEntry e') self, new')"
    and ef: "Errors_found e' \<longleftrightarrow>
               Errors_found e \<or> (\<exists>row \<in> set rows. row_has_error date_format row)"
    and dom: "fmdom new' = fset_of_list (filter (\<lambda>k. length k = 12) (map ISIN rows))"
    and other: "\<forall>k. length k \<noteq> 12 \<longrightarrow> fmlookup new' k = None"
    and stock: "\<forall>k v. fmlookup new' k = Some v \<longrightarrow> (\<exists>r. v = StockEntry r)"
    by auto
  let ?final = "fmupd ''Errors'' (ErrorsEntry e') self ++\<^sub>f new'"
  have notin: "''Errors'' |\<notin>| fmdom new'"
    using other by (auto intro: fmdom_notI)
  have bound: "fmlookup ?final ''Errors'' = Some (ErrorsEntry e')"
    using notin by simp
  have "''Errors'' |\<in>| fmdom ?final" by simp
  then have nonempty: "len ?final \<noteq> 0"
    unfolding len_def by (metis fcard_0_eq fempty_iff)
  have "load_from_file date_format rows self =
          Inr (if Errors_found e' then Error_errors_found
               else Info_new_ISIN_loaded (len ?final), ?final)"
    using nonempty bound by (simp add: load_from_file_def res errors_found_of_def Let_def)
  with ef dom stock show ?thesis by blast
qed

text \<open>
  A literal of digits around one point is read as it stands: nothing is stripped, no
  sign is taken off, and the digits on both sides of the point are the coefficient.
\<close>

lemma isdigit_not_special:
  "isdigit c \<Longrightarrow> \<not> isspace c \<and> c \<noteq> CHR ''_'' \<and> c \<noteq> CHR ''-'' \<and> c \<noteq> CHR ''+'' \<and> c \<noteq> CHR ''.''"
  by (auto simp: isdigit_def isspace_def)

lemma point_not_special:
  "\<not> isdigit CHR ''.'' \<and> \<not> isspace CHR ''.''"
  by (simp add: isdigit_def isspace_def)

lemma strip_no_space:
  assumes "\<forall>c \<in> set s. \<not> isspace c"
  shows "strip s = s"
proof -
  have "s = [] \<or> \<not> isspace (hd s)"
    using assms by (cases s) simp_all
  then have "dropWhile isspace s = s"
    by (simp only: dropWhile_eq_self_iff)
  moreover have "rev s = [] \<or> \<not> isspace (hd (rev s))"
    using assms by (cases s rule: rev_cases) simp_all
  then have "dropWhile isspace (rev s) = rev s"
    by (simp only: dropWhile_eq_self_iff)
  ultimately show ?thesis by (simp add: strip_def)
qed

lemma unsigned_literal:
  assumes "s \<noteq> []" and "\<forall>c \<in> set s. isdigit c \<or> c = CHR ''.''"
  shows "split_sign (filter (\<lambda>c. c \<noteq> CHR ''_'') (strip s)) = (False, s)"
proof -
  have "\<forall>c \<in> set s. \<not> isspace c"
    using assms(2) isdigit_not_special point_not_special by blast
  then have "strip s = s" by (rule strip_no_space)
  moreover have "filter (\<lambda>c. c \<noteq> CHR ''_'') s = s"
    using assms(2) isdigit_not_special by (auto simp: filter_id_conv)
  moreover have "split_sign s = (False, s)"
    using assms isdigit_not_special by (cases s) auto
  ultimately show ?thesis by simp
qed

lemma parse_number_point:
  assumes "list_all isdigit ip" and "list_all isdigit fp" and "ip @ fp \<noteq> []"
  shows "parse_number (ip @ ''.'' @ fp) = Some (ip, fp, 0)"
proof -
  have ip: "\<And>x. x \<in> set ip \<Longrightarrow> isdigit x"
    using assms(1) by (simp add: list_all_iff)
  have fp: "\<forall>x \<in> set fp. isdigit x"
    using assms(2) by (simp add: list_all_iff)
  have t: "takeWhile isdigit (ip @ CHR ''.'' # fp) = ip"
    using ip by (simp add: takeWhile_append2 point_not_special)
  have d: "dropWhile isdigit (ip @ CHR ''.'' # fp) = CHR ''.'' # fp"
    using ip by (simp add: dropWhile_append2 point_not_special)
  have tf: "takeWhile isdigit fp = fp"
    using fp by (simp add: takeWhile_eq_all_conv)
  have df: "dropWhile isdigit fp = []"
    using fp by simp
  show ?thesis
    using assms(3) by (simp add: parse_number_def t d tf df)
qed

lemma short_literal_within_limits:
  assumes "length (ip @ fp) \<le> MAX_PREC"
  shows "within_limits ip fp 0"
proof -
  let ?n = "significant_digits (ip @ fp)"
  have "length (dropWhile (\<lambda>c. c = CHR ''0'') (ip @ fp)) \<le> length (ip @ fp)"
    by (rule length_dropWhile_le)
  then have n: "?n \<le> MAX_PREC"
    using assms by (simp add: significant_digits_def MAX_PREC_def)
  have fp: "length fp \<le> MAX_PREC"
    using assms by simp
  have top: "0 - int (length fp) + int ?n - 1 \<le> MAX_EMAX"
    using n by (simp add: MAX_PREC_def MAX_EMAX_def)
  have bottom: "MIN_ETINY \<le> 0 - int (length fp)"
    using fp by (simp add: MAX_PREC_def MIN_ETINY_def)
  show ?thesis
    using fp n top bottom by (simp add: within_limits_def Let_def)
qed

lemma Decimal_of_point_literal:
  assumes "list_all isdigit ip" and "list_all isdigit fp" and "ip @ fp \<noteq> []"
    and "length (ip @ fp) \<le> MAX_PREC"
  shows "Decimal_of_str (ip @ ''.'' @ fp) =
           Inr (Finite False (digits_to_nat (ip @ fp)) (- int (length fp)))"
proof -
  have "\<forall>c \<in> set (ip @ ''.'' @ fp). isdigit c \<or> c = CHR ''.''"
    using assms(1,2) by (auto simp: list_all_iff)
  then have "split_sign (filter (\<lambda>c. c \<noteq> CHR ''_'') (strip (ip @ ''.'' @ fp))) =
               (False, ip @ ''.'' @ fp)"
    by (intro unsigned_literal) simp_all
  then show ?thesis
    using parse_number_point [OF assms(1-3)] short_literal_within_limits [OF assms(4)]
    by (simp add: Decimal_of_str_def)
qed

text \<open>The definitions that evaluate a load on given rows.\<close>

lemmas eval_defs =
  registry_row_is_addable_def record_error_def months_in_report_def py_int_def strptime_def
  registry_row_from_csv_def string_to_decimal_def Decimal_of_str_def strip_def isspace_def
  int_isspace_def parse_number_def parse_exponent_def isdigit_def digits_to_nat_def
  digit_value_def lower_def replace_def load_from_file_def errors_found_of_def len_def
  Registry_init_def RegistryErrorDict_init_def fcard_finsert_if limit_defs

subsection \<open>The hard rejections\<close>

text \<open>
  C4. For a row whose ISIN is the empty string, in a registry that holds its error
  dictionary \<open>e\<close> under \<^verbatim>\<open>'Errors'\<close>, the check answers \<open>False\<close>, and the registry it leaves
  differs in the error dictionary alone: the flag is set and the number of missing
  ISINs is one more, while the four sets are those of \<open>e\<close>. No later rule is looked at,
  whatever the name, the months and the date of the row are.
\<close>

theorem missing_isin_rejected:
  assumes "ISIN row = []"
    and "fmlookup self ''Errors'' = Some (ErrorsEntry e)"
  shows "registry_row_is_addable date_format self row =
           Inr (False, fmupd ''Errors''
                  (ErrorsEntry
                     \<lparr>Errors_found = True,
                      Number_of_missing_ISINs = Number_of_missing_ISINs e + 1,
                      Faulty_ISINs = Faulty_ISINs e,
                      Missing_names = Missing_names e,
                      Faulty_months_in_report = Faulty_months_in_report e,
                      Faulty_report_expiry_dates = Faulty_report_expiry_dates e\<rparr>)
                  self)"
  using missing_isin_row [OF assms, of date_format] by (cases e) simp

theorem missing_isin_rejected_witness:
  "ISIN \<lparr>ISIN = [], Name = [], EPS = ''x'', Months_in_Report = ''4'',
         Report_Expiry_Date = ''20000.01.01'', Own_Investor_Link = [],
         Stock_Exchange_Link = []\<rparr> = [] \<and>
   fmlookup Registry_init ''Errors'' = Some (ErrorsEntry RegistryErrorDict_init) \<and>
   registry_row_is_addable (\<lambda>s. s = ''2000.01.01'') Registry_init
     \<lparr>ISIN = [], Name = [], EPS = ''x'', Months_in_Report = ''4'',
      Report_Expiry_Date = ''20000.01.01'', Own_Investor_Link = [],
      Stock_Exchange_Link = []\<rparr> =
     Inr (False, fmupd ''Errors''
            (ErrorsEntry
               \<lparr>Errors_found = True, Number_of_missing_ISINs = 1, Faulty_ISINs = {},
                Missing_names = {}, Faulty_months_in_report = {},
                Faulty_report_expiry_dates = {}\<rparr>)
            fmempty)"
  using missing_isin_rejected
    [of "\<lparr>ISIN = [], Name = [], EPS = ''x'', Months_in_Report = ''4'',
          Report_Expiry_Date = ''20000.01.01'', Own_Investor_Link = [],
          Stock_Exchange_Link = []\<rparr>"
        Registry_init RegistryErrorDict_init "\<lambda>s. s = ''2000.01.01''"]
  by (simp add: Registry_init_def RegistryErrorDict_init_def)

text \<open>
  C5. For a row whose ISIN is not empty and not twelve characters long, the check
  answers \<open>False\<close>, sets the flag and adds the ISIN to the faulty ISINs; the number of
  missing ISINs and the three other sets stay as they are, and so does every other
  entry of the registry. No later rule is looked at.
\<close>

theorem faulty_isin_rejected:
  assumes "ISIN row \<noteq> []"
    and "length (ISIN row) \<noteq> 12"
    and "fmlookup self ''Errors'' = Some (ErrorsEntry e)"
  shows "registry_row_is_addable date_format self row =
           Inr (False, fmupd ''Errors''
                  (ErrorsEntry
                     \<lparr>Errors_found = True,
                      Number_of_missing_ISINs = Number_of_missing_ISINs e,
                      Faulty_ISINs = insert (ISIN row) (Faulty_ISINs e),
                      Missing_names = Missing_names e,
                      Faulty_months_in_report = Faulty_months_in_report e,
                      Faulty_report_expiry_dates = Faulty_report_expiry_dates e\<rparr>)
                  self)"
  using faulty_isin_row [OF assms, of date_format] by (cases e) simp

theorem faulty_isin_rejected_witness:
  "ISIN \<lparr>ISIN = ''12345678901'', Name = [], EPS = ''x'', Months_in_Report = ''4'',
         Report_Expiry_Date = ''20000.01.01'', Own_Investor_Link = [],
         Stock_Exchange_Link = []\<rparr> \<noteq> [] \<and>
   length (ISIN \<lparr>ISIN = ''12345678901'', Name = [], EPS = ''x'', Months_in_Report = ''4'',
         Report_Expiry_Date = ''20000.01.01'', Own_Investor_Link = [],
         Stock_Exchange_Link = []\<rparr>) \<noteq> 12 \<and>
   fmlookup Registry_init ''Errors'' = Some (ErrorsEntry RegistryErrorDict_init) \<and>
   registry_row_is_addable (\<lambda>s. s = ''2000.01.01'') Registry_init
     \<lparr>ISIN = ''12345678901'', Name = [], EPS = ''x'', Months_in_Report = ''4'',
      Report_Expiry_Date = ''20000.01.01'', Own_Investor_Link = [],
      Stock_Exchange_Link = []\<rparr> =
     Inr (False, fmupd ''Errors''
            (ErrorsEntry
               \<lparr>Errors_found = True, Number_of_missing_ISINs = 0,
                Faulty_ISINs = {''12345678901''},
                Missing_names = {}, Faulty_months_in_report = {},
                Faulty_report_expiry_dates = {}\<rparr>)
            fmempty)"
  using faulty_isin_rejected
    [of "\<lparr>ISIN = ''12345678901'', Name = [], EPS = ''x'', Months_in_Report = ''4'',
          Report_Expiry_Date = ''20000.01.01'', Own_Investor_Link = [],
          Stock_Exchange_Link = []\<rparr>"
        Registry_init RegistryErrorDict_init "\<lambda>s. s = ''2000.01.01''"]
  by (simp add: Registry_init_def RegistryErrorDict_init_def)

subsection \<open>The soft errors\<close>

text \<open>
  C6. For a row whose ISIN is not empty and twelve characters long, the check answers
  \<open>True\<close> whatever the months of the report are. The months are read with \<^verbatim>\<open>int\<close>, the
  empty string standing for zero. When \<^verbatim>\<open>int\<close> raises, or the number is none of 0, 3, 6,
  9 and 12, the flag is set and the ISIN is added to the faulty months. Otherwise the
  faulty months are unchanged and the flag is set by the name rule or the date rule
  alone.
\<close>

theorem reporting_period_soft_error:
  assumes "ISIN row \<noteq> []"
    and "length (ISIN row) = 12"
    and "fmlookup self ''Errors'' = Some (ErrorsEntry e)"
  shows "\<exists>self' e'.
           registry_row_is_addable date_format self row = Inr (True, self') \<and>
           fmlookup self' ''Errors'' = Some (ErrorsEntry e') \<and>
           (case (if Months_in_Report row = [] then Inr 0 else py_int (Months_in_Report row)) of
              Inl err \<Rightarrow>
                Errors_found e' \<and>
                Faulty_months_in_report e' = insert (ISIN row) (Faulty_months_in_report e)
            | Inr months \<Rightarrow>
                if months \<in> {0, 3, 6, 9, 12}
                then Faulty_months_in_report e' = Faulty_months_in_report e \<and>
                     (Errors_found e' \<longleftrightarrow>
                        Errors_found e \<or> Name row = [] \<or>
                        (Report_Expiry_Date row \<noteq> [] \<and> \<not> date_format (Report_Expiry_Date row)))
                else Errors_found e' \<and>
                     Faulty_months_in_report e' =
                       insert (ISIN row) (Faulty_months_in_report e))"
proof -
  let ?e' = "soft_errors date_format row e"
  let ?self' = "fmupd ''Errors'' (ErrorsEntry ?e') self"
  have "registry_row_is_addable date_format self row = Inr (True, ?self')"
    using assms(2,3) by (rule admissible_row)
  moreover have "fmlookup ?self' ''Errors'' = Some (ErrorsEntry ?e')"
    by simp
  moreover have
    "case (if Months_in_Report row = [] then Inr 0 else py_int (Months_in_Report row)) of
       Inl err \<Rightarrow>
         Errors_found ?e' \<and>
         Faulty_months_in_report ?e' = insert (ISIN row) (Faulty_months_in_report e)
     | Inr months \<Rightarrow>
         if months \<in> {0, 3, 6, 9, 12}
         then Faulty_months_in_report ?e' = Faulty_months_in_report e \<and>
              (Errors_found ?e' \<longleftrightarrow>
                 Errors_found e \<or> Name row = [] \<or>
                 (Report_Expiry_Date row \<noteq> [] \<and> \<not> date_format (Report_Expiry_Date row)))
         else Errors_found ?e' \<and>
              Faulty_months_in_report ?e' = insert (ISIN row) (Faulty_months_in_report e)"
    unfolding months_in_report_faulty_iff [of "Months_in_Report row"]
    by (cases "if Months_in_Report row = [] then Inr 0 else py_int (Months_in_Report row)")
       (simp_all del: insert_iff)
  ultimately show ?thesis by blast
qed

theorem reporting_period_soft_error_witness:
  "ISIN \<lparr>ISIN = ''123456789012'', Name = ''Company'', EPS = ''12.34'',
         Months_in_Report = ''4'', Report_Expiry_Date = ''2000.01.01'',
         Own_Investor_Link = ''http'', Stock_Exchange_Link = ''http''\<rparr> \<noteq> [] \<and>
   length (ISIN \<lparr>ISIN = ''123456789012'', Name = ''Company'', EPS = ''12.34'',
         Months_in_Report = ''4'', Report_Expiry_Date = ''2000.01.01'',
         Own_Investor_Link = ''http'', Stock_Exchange_Link = ''http''\<rparr>) = 12 \<and>
   fmlookup Registry_init ''Errors'' = Some (ErrorsEntry RegistryErrorDict_init) \<and>
   py_int ''4'' = Inr 4 \<and>
   (\<exists>self' e'.
      registry_row_is_addable (\<lambda>s. s = ''2000.01.01'') Registry_init
        \<lparr>ISIN = ''123456789012'', Name = ''Company'', EPS = ''12.34'',
         Months_in_Report = ''4'', Report_Expiry_Date = ''2000.01.01'',
         Own_Investor_Link = ''http'', Stock_Exchange_Link = ''http''\<rparr> = Inr (True, self') \<and>
      fmlookup self' ''Errors'' = Some (ErrorsEntry e') \<and>
      Errors_found e' \<and> Faulty_months_in_report e' = {''123456789012''})"
proof -
  have four: "py_int ''4'' = Inr 4"
    by (simp add: py_int_def int_isspace_def isdigit_def digits_to_nat_def digit_value_def)
  show ?thesis
    using reporting_period_soft_error
      [of "\<lparr>ISIN = ''123456789012'', Name = ''Company'', EPS = ''12.34'',
            Months_in_Report = ''4'', Report_Expiry_Date = ''2000.01.01'',
            Own_Investor_Link = ''http'', Stock_Exchange_Link = ''http''\<rparr>"
          Registry_init RegistryErrorDict_init "\<lambda>s. s = ''2000.01.01''"]
    by (simp add: four Registry_init_def RegistryErrorDict_init_def)
qed

text \<open>
  C7. For a row whose ISIN is not empty and twelve characters long, the check answers
  \<open>True\<close> whatever the expiry date is. For the empty date, and for a date that
  \<^verbatim>\<open>strptime\<close> accepts, the faulty expiry dates are unchanged and the flag is set by the
  name rule or the months rule alone. For a date that is not empty and that
  \<^verbatim>\<open>strptime\<close> rejects, the flag is set and the ISIN is added to the faulty expiry dates.
\<close>

theorem expiry_date_soft_error:
  assumes "ISIN row \<noteq> []"
    and "length (ISIN row) = 12"
    and "fmlookup self ''Errors'' = Some (ErrorsEntry e)"
  shows "\<exists>self' e'.
           registry_row_is_addable date_format self row = Inr (True, self') \<and>
           fmlookup self' ''Errors'' = Some (ErrorsEntry e') \<and>
           (if Report_Expiry_Date row = [] \<or>
               strptime date_format (Report_Expiry_Date row) = Inr ()
            then Faulty_report_expiry_dates e' = Faulty_report_expiry_dates e \<and>
                 (Errors_found e' \<longleftrightarrow>
                    Errors_found e \<or> Name row = [] \<or>
                    months_in_report (Months_in_Report row) = Inl ValueError)
            else Errors_found e' \<and>
                 Faulty_report_expiry_dates e' =
                   insert (ISIN row) (Faulty_report_expiry_dates e))"
proof -
  let ?e' = "soft_errors date_format row e"
  let ?self' = "fmupd ''Errors'' (ErrorsEntry ?e') self"
  have "registry_row_is_addable date_format self row = Inr (True, ?self')"
    using assms(2,3) by (rule admissible_row)
  moreover have "fmlookup ?self' ''Errors'' = Some (ErrorsEntry ?e')"
    by simp
  moreover have
    "if Report_Expiry_Date row = [] \<or> strptime date_format (Report_Expiry_Date row) = Inr ()
     then Faulty_report_expiry_dates ?e' = Faulty_report_expiry_dates e \<and>
          (Errors_found ?e' \<longleftrightarrow>
             Errors_found e \<or> Name row = [] \<or>
             months_in_report (Months_in_Report row) = Inl ValueError)
     else Errors_found ?e' \<and>
          Faulty_report_expiry_dates ?e' = insert (ISIN row) (Faulty_report_expiry_dates e)"
    by (simp add: strptime_def)
  ultimately show ?thesis by blast
qed

theorem expiry_date_soft_error_witness:
  "ISIN \<lparr>ISIN = ''123456789012'', Name = ''Company'', EPS = ''12.34'',
         Months_in_Report = [], Report_Expiry_Date = ''20000.01.01'',
         Own_Investor_Link = ''http'', Stock_Exchange_Link = ''http''\<rparr> \<noteq> [] \<and>
   length (ISIN \<lparr>ISIN = ''123456789012'', Name = ''Company'', EPS = ''12.34'',
         Months_in_Report = [], Report_Expiry_Date = ''20000.01.01'',
         Own_Investor_Link = ''http'', Stock_Exchange_Link = ''http''\<rparr>) = 12 \<and>
   fmlookup Registry_init ''Errors'' = Some (ErrorsEntry RegistryErrorDict_init) \<and>
   (\<exists>self' e'.
      registry_row_is_addable (\<lambda>s. s = ''2000.01.01'') Registry_init
        \<lparr>ISIN = ''123456789012'', Name = ''Company'', EPS = ''12.34'',
         Months_in_Report = [], Report_Expiry_Date = ''20000.01.01'',
         Own_Investor_Link = ''http'', Stock_Exchange_Link = ''http''\<rparr> = Inr (True, self') \<and>
      fmlookup self' ''Errors'' = Some (ErrorsEntry e') \<and>
      Errors_found e' \<and> Faulty_report_expiry_dates e' = {''123456789012''})"
  using expiry_date_soft_error
      [of "\<lparr>ISIN = ''123456789012'', Name = ''Company'', EPS = ''12.34'',
            Months_in_Report = [], Report_Expiry_Date = ''20000.01.01'',
            Own_Investor_Link = ''http'', Stock_Exchange_Link = ''http''\<rparr>"
          Registry_init RegistryErrorDict_init "\<lambda>s. s = ''2000.01.01''"]
  by (simp add: Registry_init_def RegistryErrorDict_init_def strptime_def)

subsection \<open>The flag and the key of the error dictionary\<close>

text \<open>
  C8. The flag \<^verbatim>\<open>'Errors found'\<close> is false in a new error dictionary. In a registry
  that holds its error dictionary \<open>e\<close> under \<^verbatim>\<open>'Errors'\<close>, the flag after the check of a
  row is the flag before or one of the five failures of the row: an empty ISIN, an
  ISIN not twelve characters long, an empty name, faulty months, a faulty expiry date.
  The flag after a load is the flag before or such a failure in one of the rows. So a
  flag that is set stays set, and the first failure sets it.
\<close>

theorem errors_found_never_reset:
  assumes "fmlookup self ''Errors'' = Some (ErrorsEntry e)"
  shows "\<not> Errors_found RegistryErrorDict_init \<and>
         (\<exists>addable self' e'.
            registry_row_is_addable date_format self row = Inr (addable, self') \<and>
            fmlookup self' ''Errors'' = Some (ErrorsEntry e') \<and>
            (Errors_found e' \<longleftrightarrow>
               Errors_found e \<or> ISIN row = [] \<or> length (ISIN row) \<noteq> 12 \<or> Name row = [] \<or>
               months_in_report (Months_in_Report row) = Inl ValueError \<or>
               (Report_Expiry_Date row \<noteq> [] \<and> \<not> date_format (Report_Expiry_Date row)))) \<and>
         (\<exists>log self' e'.
            load_from_file date_format rows self = Inr (log, self') \<and>
            fmlookup self' ''Errors'' = Some (ErrorsEntry e') \<and>
            (Errors_found e' \<longleftrightarrow>
               Errors_found e \<or>
               (\<exists>row \<in> set rows.
                  ISIN row = [] \<or> length (ISIN row) \<noteq> 12 \<or> Name row = [] \<or>
                  months_in_report (Months_in_Report row) = Inl ValueError \<or>
                  (Report_Expiry_Date row \<noteq> [] \<and> \<not> date_format (Report_Expiry_Date row)))))"
proof (intro conjI)
  show "\<not> Errors_found RegistryErrorDict_init"
    by (simp add: RegistryErrorDict_init_def)
next
  from row_is_addable_result [OF assms, of date_format row] obtain e' where
    step: "registry_row_is_addable date_format self row =
             Inr (length (ISIN row) = 12, fmupd ''Errors'' (ErrorsEntry e') self)"
    and ef: "Errors_found e' \<longleftrightarrow> Errors_found e \<or> row_has_error date_format row"
    by blast
  have "fmlookup (fmupd ''Errors'' (ErrorsEntry e') self) ''Errors'' = Some (ErrorsEntry e')"
    by simp
  with step ef show "\<exists>addable self' e'.
      registry_row_is_addable date_format self row = Inr (addable, self') \<and>
      fmlookup self' ''Errors'' = Some (ErrorsEntry e') \<and>
      (Errors_found e' \<longleftrightarrow> Errors_found e \<or> row_has_error date_format row)"
    by blast
next
  from load_from_file_result [OF assms, of date_format rows] obtain e' new' log where
    res: "load_from_file date_format rows self =
            Inr (log, fmupd ''Errors'' (ErrorsEntry e') self ++\<^sub>f new')"
    and ef: "Errors_found e' \<longleftrightarrow>
               Errors_found e \<or> (\<exists>row \<in> set rows. row_has_error date_format row)"
    and dom: "fmdom new' = fset_of_list (filter (\<lambda>k. length k = 12) (map ISIN rows))"
    by blast
  have "''Errors'' |\<notin>| fmdom new'"
    unfolding dom by (simp add: fset_of_list_elem)
  then have "fmlookup (fmupd ''Errors'' (ErrorsEntry e') self ++\<^sub>f new') ''Errors'' =
               Some (ErrorsEntry e')"
    by simp
  with res ef show "\<exists>log self' e'.
      load_from_file date_format rows self = Inr (log, self') \<and>
      fmlookup self' ''Errors'' = Some (ErrorsEntry e') \<and>
      (Errors_found e' \<longleftrightarrow>
         Errors_found e \<or> (\<exists>row \<in> set rows. row_has_error date_format row))"
    by blast
qed

theorem errors_found_never_reset_witness:
  "fmlookup Registry_init ''Errors'' = Some (ErrorsEntry RegistryErrorDict_init) \<and>
   \<not> Errors_found RegistryErrorDict_init \<and>
   (\<exists>addable self' e'.
      registry_row_is_addable (\<lambda>s. s = ''2000.01.01'') Registry_init
        \<lparr>ISIN = ''123456789012'', Name = [], EPS = ''12.34'',
         Months_in_Report = [], Report_Expiry_Date = ''2000.01.01'',
         Own_Investor_Link = ''http'', Stock_Exchange_Link = ''http''\<rparr> = Inr (addable, self') \<and>
      fmlookup self' ''Errors'' = Some (ErrorsEntry e') \<and> Errors_found e') \<and>
   (\<exists>log self' e'.
      load_from_file (\<lambda>s. s = ''2000.01.01'')
        [\<lparr>ISIN = ''123456789012'', Name = ''Company'', EPS = ''12.34'',
          Months_in_Report = [], Report_Expiry_Date = ''2000.01.01'',
          Own_Investor_Link = ''http'', Stock_Exchange_Link = ''http''\<rparr>,
         \<lparr>ISIN = [], Name = ''Company'', EPS = ''12.34'',
          Months_in_Report = [], Report_Expiry_Date = ''2000.01.01'',
          Own_Investor_Link = ''http'', Stock_Exchange_Link = ''http''\<rparr>]
        Registry_init = Inr (log, self') \<and>
      fmlookup self' ''Errors'' = Some (ErrorsEntry e') \<and> Errors_found e')"
  using errors_found_never_reset
    [of Registry_init RegistryErrorDict_init "\<lambda>s. s = ''2000.01.01''"
        "\<lparr>ISIN = ''123456789012'', Name = [], EPS = ''12.34'',
          Months_in_Report = [], Report_Expiry_Date = ''2000.01.01'',
          Own_Investor_Link = ''http'', Stock_Exchange_Link = ''http''\<rparr>"
        "[\<lparr>ISIN = ''123456789012'', Name = ''Company'', EPS = ''12.34'',
          Months_in_Report = [], Report_Expiry_Date = ''2000.01.01'',
          Own_Investor_Link = ''http'', Stock_Exchange_Link = ''http''\<rparr>,
         \<lparr>ISIN = [], Name = ''Company'', EPS = ''12.34'',
          Months_in_Report = [], Report_Expiry_Date = ''2000.01.01'',
          Own_Investor_Link = ''http'', Stock_Exchange_Link = ''http''\<rparr>]"]
  by (simp add: Registry_init_def RegistryErrorDict_init_def)

text \<open>
  C10. A new registry holds its error dictionary under \<^verbatim>\<open>'Errors'\<close> and has length one.
  A registry that holds an error dictionary under that key is not empty, holds one
  under the same key after the check of any row, with the same keys, and after any
  load, which therefore never logs that no ISIN was loaded. After a load into a new
  registry every other key holds a stock record, the other keys are the
  twelve-character ISINs of the rows, and the length is their number plus one.
\<close>

theorem errors_key_invariant:
  assumes "fmlookup self ''Errors'' = Some (ErrorsEntry e)"
  shows "fmlookup Registry_init ''Errors'' = Some (ErrorsEntry RegistryErrorDict_init) \<and>
         len Registry_init = 1 \<and>
         len self \<noteq> 0 \<and>
         (\<exists>addable self' e'.
            registry_row_is_addable date_format self row = Inr (addable, self') \<and>
            fmlookup self' ''Errors'' = Some (ErrorsEntry e') \<and>
            fmdom self' = fmdom self) \<and>
         (\<exists>log self' e'.
            load_from_file date_format rows self = Inr (log, self') \<and>
            fmlookup self' ''Errors'' = Some (ErrorsEntry e') \<and>
            len self' \<noteq> 0 \<and> log \<noteq> Error_no_ISIN_loaded) \<and>
         (\<exists>log self' e'.
            load_from_file date_format rows Registry_init = Inr (log, self') \<and>
            fmlookup self' ''Errors'' = Some (ErrorsEntry e') \<and>
            (\<forall>k. k |\<in>| fmdom self' \<longrightarrow> k \<noteq> ''Errors'' \<longrightarrow>
                   (\<exists>r. fmlookup self' k = Some (StockEntry r))) \<and>
            fmdom self' |-| {|''Errors''|} =
              fset_of_list (filter (\<lambda>k. length k = 12) (map ISIN rows)) \<and>
            len self' = fcard (fmdom self' |-| {|''Errors''|}) + 1)"
proof (intro conjI)
  show init: "fmlookup Registry_init ''Errors'' = Some (ErrorsEntry RegistryErrorDict_init)"
    by (simp add: Registry_init_def)
  show "len Registry_init = 1"
    by (simp add: Registry_init_def len_def fcard_finsert_if)
  have "''Errors'' |\<in>| fmdom self"
    using assms by (rule fmdomI)
  then show "len self \<noteq> 0"
    unfolding len_def by (metis fcard_0_eq fempty_iff)
  from row_is_addable_result [OF assms, of date_format row] obtain e' where
    step: "registry_row_is_addable date_format self row =
             Inr (length (ISIN row) = 12, fmupd ''Errors'' (ErrorsEntry e') self)"
    by blast
  have "fmlookup (fmupd ''Errors'' (ErrorsEntry e') self) ''Errors'' = Some (ErrorsEntry e')"
    by simp
  moreover have "fmdom (fmupd ''Errors'' (ErrorsEntry e') self) = fmdom self"
    using \<open>''Errors'' |\<in>| fmdom self\<close> by auto
  ultimately show "\<exists>addable self' e'.
      registry_row_is_addable date_format self row = Inr (addable, self') \<and>
      fmlookup self' ''Errors'' = Some (ErrorsEntry e') \<and> fmdom self' = fmdom self"
    using step by blast
  show "\<exists>log self' e'.
      load_from_file date_format rows self = Inr (log, self') \<and>
      fmlookup self' ''Errors'' = Some (ErrorsEntry e') \<and>
      len self' \<noteq> 0 \<and> log \<noteq> Error_no_ISIN_loaded"
  proof -
    from load_from_file_result [OF assms, of date_format rows] obtain e' new' where
      res: "load_from_file date_format rows self =
              Inr (if Errors_found e' then Error_errors_found
                   else Info_new_ISIN_loaded (len (fmupd ''Errors'' (ErrorsEntry e') self ++\<^sub>f new')),
                   fmupd ''Errors'' (ErrorsEntry e') self ++\<^sub>f new')"
      and dom: "fmdom new' = fset_of_list (filter (\<lambda>k. length k = 12) (map ISIN rows))"
      by blast
    let ?final = "fmupd ''Errors'' (ErrorsEntry e') self ++\<^sub>f new'"
    have "''Errors'' |\<notin>| fmdom new'"
      unfolding dom by (simp add: fset_of_list_elem)
    then have bound: "fmlookup ?final ''Errors'' = Some (ErrorsEntry e')"
      by simp
    have "''Errors'' |\<in>| fmdom ?final" by simp
    then have "len ?final \<noteq> 0"
      unfolding len_def by (metis fcard_0_eq fempty_iff)
    with res bound show ?thesis by auto
  qed
  show "\<exists>log self' e'.
      load_from_file date_format rows Registry_init = Inr (log, self') \<and>
      fmlookup self' ''Errors'' = Some (ErrorsEntry e') \<and>
      (\<forall>k. k |\<in>| fmdom self' \<longrightarrow> k \<noteq> ''Errors'' \<longrightarrow>
             (\<exists>r. fmlookup self' k = Some (StockEntry r))) \<and>
      fmdom self' |-| {|''Errors''|} =
        fset_of_list (filter (\<lambda>k. length k = 12) (map ISIN rows)) \<and>
      len self' = fcard (fmdom self' |-| {|''Errors''|}) + 1"
  proof -
    from load_from_file_result [OF init, of date_format rows] obtain e' new' log where
      res: "load_from_file date_format rows Registry_init =
              Inr (log, fmupd ''Errors'' (ErrorsEntry e') Registry_init ++\<^sub>f new')"
      and dom: "fmdom new' = fset_of_list (filter (\<lambda>k. length k = 12) (map ISIN rows))"
      and stock: "\<forall>k v. fmlookup new' k = Some v \<longrightarrow> (\<exists>r. v = StockEntry r)"
      by blast
    let ?final = "fmupd ''Errors'' (ErrorsEntry e') Registry_init ++\<^sub>f new'"
    have notin: "''Errors'' |\<notin>| fmdom new'"
      unfolding dom by (simp add: fset_of_list_elem)
    then have bound: "fmlookup ?final ''Errors'' = Some (ErrorsEntry e')"
      by simp
    have domf: "fmdom ?final = finsert ''Errors'' (fmdom new')"
      by (simp add: Registry_init_def)
    have keys: "fmdom ?final |-| {|''Errors''|} = fmdom new'"
      unfolding domf using notin by auto
    have others: "\<forall>k. k |\<in>| fmdom ?final \<longrightarrow> k \<noteq> ''Errors'' \<longrightarrow>
                    (\<exists>r. fmlookup ?final k = Some (StockEntry r))"
      using stock by (auto simp: Registry_init_def fmlookup_dom_iff)
    have size: "len ?final = fcard (fmdom ?final |-| {|''Errors''|}) + 1"
      unfolding keys unfolding domf len_def using notin by (simp add: fcard_finsert_if)
    show ?thesis
      using res bound others keys size dom by (intro exI [of _ log] exI [of _ ?final] exI [of _ e']) simp
  qed
qed

theorem errors_key_invariant_witness:
  "fmlookup Registry_init ''Errors'' = Some (ErrorsEntry RegistryErrorDict_init) \<and>
   len Registry_init = 1 \<and>
   (\<exists>log self' e'.
      load_from_file (\<lambda>s. s = ''2000.01.01'')
        [\<lparr>ISIN = ''123456789012'', Name = ''Company'', EPS = ''12.34'',
          Months_in_Report = [], Report_Expiry_Date = ''2000.01.01'',
          Own_Investor_Link = ''http'', Stock_Exchange_Link = ''http''\<rparr>,
         \<lparr>ISIN = ''Errors'', Name = ''Company'', EPS = ''12.34'',
          Months_in_Report = [], Report_Expiry_Date = ''2000.01.01'',
          Own_Investor_Link = ''http'', Stock_Exchange_Link = ''http''\<rparr>]
        Registry_init = Inr (log, self') \<and>
      fmlookup self' ''Errors'' = Some (ErrorsEntry e') \<and>
      fmdom self' |-| {|''Errors''|} = {|''123456789012''|} \<and>
      len self' = 2)"
proof -
  let ?rows = "[\<lparr>ISIN = ''123456789012'', Name = ''Company'', EPS = ''12.34'',
          Months_in_Report = [], Report_Expiry_Date = ''2000.01.01'',
          Own_Investor_Link = ''http'', Stock_Exchange_Link = ''http''\<rparr>,
         \<lparr>ISIN = ''Errors'', Name = ''Company'', EPS = ''12.34'',
          Months_in_Report = [], Report_Expiry_Date = ''2000.01.01'',
          Own_Investor_Link = ''http'', Stock_Exchange_Link = ''http''\<rparr>]"
  have init: "fmlookup Registry_init ''Errors'' = Some (ErrorsEntry RegistryErrorDict_init)"
    by (simp add: Registry_init_def)
  note inst = errors_key_invariant [OF init, of "\<lambda>s. s = ''2000.01.01''" "hd ?rows" ?rows]
  from inst have one: "len Registry_init = 1"
    by (elim conjE)
  from inst have "\<exists>log self' e'.
      load_from_file (\<lambda>s. s = ''2000.01.01'') ?rows Registry_init = Inr (log, self') \<and>
      fmlookup self' ''Errors'' = Some (ErrorsEntry e') \<and>
      (\<forall>k. k |\<in>| fmdom self' \<longrightarrow> k \<noteq> ''Errors'' \<longrightarrow>
             (\<exists>r. fmlookup self' k = Some (StockEntry r))) \<and>
      fmdom self' |-| {|''Errors''|} =
        fset_of_list (filter (\<lambda>k. length k = 12) (map ISIN ?rows)) \<and>
      len self' = fcard (fmdom self' |-| {|''Errors''|}) + 1"
    by (elim conjE)
  then obtain log self' e' where
    res: "load_from_file (\<lambda>s. s = ''2000.01.01'') ?rows Registry_init = Inr (log, self')"
    and bound: "fmlookup self' ''Errors'' = Some (ErrorsEntry e')"
    and keys: "fmdom self' |-| {|''Errors''|} =
       fset_of_list (filter (\<lambda>k. length k = 12) (map ISIN ?rows))"
    and size: "len self' = fcard (fmdom self' |-| {|''Errors''|}) + 1"
    by (elim exE conjE)
  have keys': "fmdom self' |-| {|''Errors''|} = {|''123456789012''|}"
    unfolding keys by simp
  have size': "len self' = 2"
    unfolding size keys' by (simp add: fcard_finsert_if)
  have "load_from_file (\<lambda>s. s = ''2000.01.01'') ?rows Registry_init = Inr (log, self') \<and>
      fmlookup self' ''Errors'' = Some (ErrorsEntry e') \<and>
      fmdom self' |-| {|''Errors''|} = {|''123456789012''|} \<and>
      len self' = 2"
    using res bound keys' size' by (intro conjI)
  then have "\<exists>log self' e'.
      load_from_file (\<lambda>s. s = ''2000.01.01'') ?rows Registry_init = Inr (log, self') \<and>
      fmlookup self' ''Errors'' = Some (ErrorsEntry e') \<and>
      fmdom self' |-| {|''Errors''|} = {|''123456789012''|} \<and>
      len self' = 2"
    by (intro exI)
  with init one show ?thesis by (intro conjI)
qed

subsection \<open>The conversion of the EPS\<close>

text \<open>
  C9. \<^verbatim>\<open>_string_to_decimal\<close> returns for every string: the decimal that \<^verbatim>\<open>Decimal\<close> reads
  when it reads one, and the zero of coefficient 0 and exponent 0 when \<^verbatim>\<open>Decimal\<close>
  raises. \<^verbatim>\<open>'12.34'\<close> gives the coefficient 1234 with exponent -2. The largest exponent is
  read as it stands, and the literal with the next exponent, for which \<^verbatim>\<open>Decimal\<close>
  raises, gives zero. Any digits around a point, no more than \<^verbatim>\<open>MAX_PREC\<close> of them, give
  all their digits as coefficient, with the exponent counting the fraction digits, so
  nothing is rounded or cut. A row that passes the check is
  stored whatever its EPS is, and the registry after the row, error dictionary
  included, is the one the check left: the conversion records nothing.
\<close>

theorem eps_conversion_never_fails:
  "string_to_decimal s =
     Inr (case Decimal_of_str s of Inr d \<Rightarrow> d | Inl err \<Rightarrow> Finite False 0 0) \<and>
   string_to_decimal ''12.34'' = Inr (Finite False 1234 (- 2)) \<and>
   string_to_decimal ''1e999999999999999999'' = Inr (Finite False 1 999999999999999999) \<and>
   string_to_decimal ''1e1000000000000000000'' = Inr (Finite False 0 0) \<and>
   (list_all isdigit ip \<and> list_all isdigit fp \<and> ip @ fp \<noteq> [] \<and>
    length (ip @ fp) \<le> MAX_PREC \<longrightarrow>
      string_to_decimal (ip @ ''.'' @ fp) =
        Inr (Finite False (digits_to_nat (ip @ fp)) (- int (length fp)))) \<and>
   (length (ISIN row) = 12 \<and> fmlookup self ''Errors'' = Some (ErrorsEntry e) \<longrightarrow>
      (\<exists>self'.
         registry_row_is_addable date_format self row = Inr (True, self') \<and>
         comprehension date_format [row] self new =
           Inr (self',
                fmupd (ISIN row)
                  (StockEntry
                     \<lparr>stock_Name = Name row,
                      stock_EPS = (case Decimal_of_str (EPS row) of
                                     Inr d \<Rightarrow> d | Inl err \<Rightarrow> Finite False 0 0),
                      stock_Months_in_Report = Months_in_Report row,
                      stock_Report_Expiry_Date = Report_Expiry_Date row,
                      stock_Own_Investor_Link = Own_Investor_Link row,
                      stock_Stock_Exchange_Link = Stock_Exchange_Link row\<rparr>)
                  new)))"
proof (intro conjI impI)
  show "string_to_decimal s =
     Inr (case Decimal_of_str s of Inr d \<Rightarrow> d | Inl err \<Rightarrow> Finite False 0 0)"
    by (rule string_to_decimal_eq)
  have "Decimal_of_str ''12.34'' = Inr (Finite False 1234 (- 2))"
    by (simp add: Decimal_of_str_def strip_def isspace_def parse_number_def isdigit_def
          digits_to_nat_def digit_value_def limit_defs)
  then show "string_to_decimal ''12.34'' = Inr (Finite False 1234 (- 2))"
    by (simp add: string_to_decimal_eq)
  have "Decimal_of_str ''1e999999999999999999'' = Inr (Finite False 1 999999999999999999)"
    by (simp add: Decimal_of_str_def strip_def isspace_def parse_number_def parse_exponent_def
          isdigit_def digits_to_nat_def digit_value_def limit_defs)
  then show "string_to_decimal ''1e999999999999999999'' =
               Inr (Finite False 1 999999999999999999)"
    by (simp add: string_to_decimal_eq)
  have "Decimal_of_str ''1e1000000000000000000'' = Inl InvalidOperation"
    by (simp add: Decimal_of_str_def strip_def isspace_def parse_number_def parse_exponent_def
          isdigit_def digits_to_nat_def digit_value_def lower_def limit_defs)
  then show "string_to_decimal ''1e1000000000000000000'' = Inr (Finite False 0 0)"
    by (simp add: string_to_decimal_eq)
next
  assume "list_all isdigit ip \<and> list_all isdigit fp \<and> ip @ fp \<noteq> [] \<and>
          length (ip @ fp) \<le> MAX_PREC"
  then have "Decimal_of_str (ip @ ''.'' @ fp) =
               Inr (Finite False (digits_to_nat (ip @ fp)) (- int (length fp)))"
    by (intro Decimal_of_point_literal) simp_all
  then show "string_to_decimal (ip @ ''.'' @ fp) =
               Inr (Finite False (digits_to_nat (ip @ fp)) (- int (length fp)))"
    by (simp add: string_to_decimal_eq)
next
  assume "length (ISIN row) = 12 \<and> fmlookup self ''Errors'' = Some (ErrorsEntry e)"
  then have len: "length (ISIN row) = 12"
    and bound: "fmlookup self ''Errors'' = Some (ErrorsEntry e)"
    by simp_all
  have "registry_row_is_addable date_format self row =
          Inr (True, fmupd ''Errors'' (ErrorsEntry (soft_errors date_format row e)) self)"
    using len bound by (rule admissible_row)
  then show "\<exists>self'.
         registry_row_is_addable date_format self row = Inr (True, self') \<and>
         comprehension date_format [row] self new =
           Inr (self',
                fmupd (ISIN row)
                  (StockEntry
                     \<lparr>stock_Name = Name row,
                      stock_EPS = (case Decimal_of_str (EPS row) of
                                     Inr d \<Rightarrow> d | Inl err \<Rightarrow> Finite False 0 0),
                      stock_Months_in_Report = Months_in_Report row,
                      stock_Report_Expiry_Date = Report_Expiry_Date row,
                      stock_Own_Investor_Link = Own_Investor_Link row,
                      stock_Stock_Exchange_Link = Stock_Exchange_Link row\<rparr>)
                  new)"
    by (simp add: registry_row_from_csv_eq)
qed

theorem eps_conversion_never_fails_witness:
  "string_to_decimal ''abc'' = Inr (Finite False 0 0) \<and>
   (list_all isdigit ''0012'' \<and> list_all isdigit ''3400'' \<and> ''0012'' @ ''3400'' \<noteq> [] \<and>
    length (''0012'' @ ''3400'') \<le> MAX_PREC) \<and>
   string_to_decimal ''0012.3400'' = Inr (Finite False 123400 (- 4)) \<and>
   (length (ISIN \<lparr>ISIN = ''123456789012'', Name = ''Company'', EPS = ''abc'',
              Months_in_Report = ''3'', Report_Expiry_Date = ''2000.01.01'',
              Own_Investor_Link = ''http'', Stock_Exchange_Link = ''http''\<rparr>) = 12 \<and>
    fmlookup Registry_init ''Errors'' = Some (ErrorsEntry RegistryErrorDict_init)) \<and>
   comprehension (\<lambda>s. s = ''2000.01.01'')
     [\<lparr>ISIN = ''123456789012'', Name = ''Company'', EPS = ''abc'',
       Months_in_Report = ''3'', Report_Expiry_Date = ''2000.01.01'',
       Own_Investor_Link = ''http'', Stock_Exchange_Link = ''http''\<rparr>]
     Registry_init fmempty =
     Inr (Registry_init,
          fmupd ''123456789012''
            (StockEntry
               \<lparr>stock_Name = ''Company'', stock_EPS = Finite False 0 0,
                stock_Months_in_Report = ''3'', stock_Report_Expiry_Date = ''2000.01.01'',
                stock_Own_Investor_Link = ''http'', stock_Stock_Exchange_Link = ''http''\<rparr>)
            fmempty)"
proof -
  let ?row = "\<lparr>ISIN = ''123456789012'', Name = ''Company'', EPS = ''abc'',
            Months_in_Report = ''3'', Report_Expiry_Date = ''2000.01.01'',
            Own_Investor_Link = ''http'', Stock_Exchange_Link = ''http''\<rparr>"
  let ?fmt = "\<lambda>s. s = ''2000.01.01''"
  note inst = eps_conversion_never_fails
      [of "''abc''" "''0012''" "''3400''" ?row Registry_init RegistryErrorDict_init ?fmt fmempty]
  have abc: "Decimal_of_str ''abc'' = Inl InvalidOperation"
    by (simp add: Decimal_of_str_def strip_def isspace_def parse_number_def isdigit_def
          lower_def)
  from inst have "string_to_decimal ''abc'' =
      Inr (case Decimal_of_str ''abc'' of Inr d \<Rightarrow> d | Inl err \<Rightarrow> Finite False 0 0)"
    by (elim conjE)
  then have c1: "string_to_decimal ''abc'' = Inr (Finite False 0 0)"
    by (simp add: abc)
  have h2: "list_all isdigit ''0012'' \<and> list_all isdigit ''3400'' \<and> ''0012'' @ ''3400'' \<noteq> [] \<and>
            length (''0012'' @ ''3400'') \<le> MAX_PREC"
    by (simp add: isdigit_def MAX_PREC_def)
  from inst have "list_all isdigit ''0012'' \<and> list_all isdigit ''3400'' \<and> ''0012'' @ ''3400'' \<noteq> [] \<and>
      length (''0012'' @ ''3400'') \<le> MAX_PREC \<longrightarrow>
      string_to_decimal (''0012'' @ ''.'' @ ''3400'') =
        Inr (Finite False (digits_to_nat (''0012'' @ ''3400'')) (- int (length ''3400'')))"
    by (elim conjE)
  from this h2 have "string_to_decimal (''0012'' @ ''.'' @ ''3400'') =
        Inr (Finite False (digits_to_nat (''0012'' @ ''3400'')) (- int (length ''3400'')))"
    by (rule mp)
  then have c2: "string_to_decimal ''0012.3400'' = Inr (Finite False 123400 (- 4))"
    by (simp add: digits_to_nat_def digit_value_def)
  have h3: "length (ISIN ?row) = 12 \<and>
            fmlookup Registry_init ''Errors'' = Some (ErrorsEntry RegistryErrorDict_init)"
    by (simp add: Registry_init_def)
  from inst have "length (ISIN ?row) = 12 \<and>
       fmlookup Registry_init ''Errors'' = Some (ErrorsEntry RegistryErrorDict_init) \<longrightarrow>
      (\<exists>self'.
         registry_row_is_addable ?fmt Registry_init ?row = Inr (True, self') \<and>
         comprehension ?fmt [?row] Registry_init fmempty =
           Inr (self',
                fmupd (ISIN ?row)
                  (StockEntry
                     \<lparr>stock_Name = Name ?row,
                      stock_EPS = (case Decimal_of_str (EPS ?row) of
                                     Inr d \<Rightarrow> d | Inl err \<Rightarrow> Finite False 0 0),
                      stock_Months_in_Report = Months_in_Report ?row,
                      stock_Report_Expiry_Date = Report_Expiry_Date ?row,
                      stock_Own_Investor_Link = Own_Investor_Link ?row,
                      stock_Stock_Exchange_Link = Stock_Exchange_Link ?row\<rparr>)
                  fmempty))"
    (is "_ \<longrightarrow> ?stored")
    by (elim conjE)
  from this h3 have ?stored
    by (rule mp)
  then obtain self' where
    addable: "registry_row_is_addable ?fmt Registry_init ?row = Inr (True, self')"
    and stored: "comprehension ?fmt [?row] Registry_init fmempty =
           Inr (self',
                fmupd (ISIN ?row)
                  (StockEntry
                     \<lparr>stock_Name = Name ?row,
                      stock_EPS = (case Decimal_of_str (EPS ?row) of
                                     Inr d \<Rightarrow> d | Inl err \<Rightarrow> Finite False 0 0),
                      stock_Months_in_Report = Months_in_Report ?row,
                      stock_Report_Expiry_Date = Report_Expiry_Date ?row,
                      stock_Own_Investor_Link = Own_Investor_Link ?row,
                      stock_Stock_Exchange_Link = Stock_Exchange_Link ?row\<rparr>)
                  fmempty)"
    by (elim exE conjE)
  have three: "months_in_report ''3'' = Inr 3"
    by (simp add: months_in_report_def py_int_def int_isspace_def isdigit_def digits_to_nat_def
          digit_value_def)
  have "registry_row_is_addable ?fmt Registry_init ?row = Inr (True, Registry_init)"
    by (simp add: registry_row_is_addable_def three strptime_def)
  with addable have "self' = Registry_init"
    by simp
  with stored have c3: "comprehension ?fmt [?row] Registry_init fmempty =
     Inr (Registry_init,
          fmupd ''123456789012''
            (StockEntry
               \<lparr>stock_Name = ''Company'', stock_EPS = Finite False 0 0,
                stock_Months_in_Report = ''3'', stock_Report_Expiry_Date = ''2000.01.01'',
                stock_Own_Investor_Link = ''http'', stock_Stock_Exchange_Link = ''http''\<rparr>)
            fmempty)"
    by (simp add: abc)
  from c1 h2 c2 h3 c3 show ?thesis
    by (intro conjI) (elim conjE, assumption)+
qed

text \<open>
  C1. The EPS \<^verbatim>\<open>'12,34'\<close> has a comma and no point. The string with the comma replaced
  is \<^verbatim>\<open>'12.34'\<close>, which \<^verbatim>\<open>Decimal\<close> reads as 12.34, but \<^verbatim>\<open>_string_to_decimal\<close> hands the
  unchanged string to \<^verbatim>\<open>Decimal\<close> and returns zero, and so the stock record of the row
  has the EPS zero.
\<close>

theorem comma_eps_is_zero:
  "replace CHR '','' CHR ''.'' ''12,34'' = ''12.34'' \<and>
   Decimal_of_str ''12.34'' = Inr (Finite False 1234 (- 2)) \<and>
   string_to_decimal ''12,34'' = Inr (Finite False 0 0) \<and>
   registry_row_from_csv
     \<lparr>ISIN = ''123456789012'', Name = ''Company'', EPS = ''12,34'',
      Months_in_Report = ''3'', Report_Expiry_Date = ''2000.01.01'',
      Own_Investor_Link = ''http'', Stock_Exchange_Link = ''http''\<rparr> =
     Inr \<lparr>stock_Name = ''Company'', stock_EPS = Finite False 0 0,
          stock_Months_in_Report = ''3'', stock_Report_Expiry_Date = ''2000.01.01'',
          stock_Own_Investor_Link = ''http'', stock_Stock_Exchange_Link = ''http''\<rparr>"
  by (simp add: eval_defs)

subsection \<open>The log line of a load\<close>

text \<open>
  C2. A new registry loads two rows, one without ISIN and one with an ISIN of eleven
  characters. Both are rejected and the registry holds the error dictionary alone,
  yet its length is one, so the line logged is that errors were found, not that no
  ISIN was loaded.
\<close>

theorem rejected_batch_logs_errors_found:
  "load_from_file date_format
     [\<lparr>ISIN = [], Name = ''Company'', EPS = ''12.34'',
       Months_in_Report = ''3'', Report_Expiry_Date = ''2000.01.01'',
       Own_Investor_Link = ''http'', Stock_Exchange_Link = ''http''\<rparr>,
      \<lparr>ISIN = ''12345678901'', Name = ''Company'', EPS = ''12.34'',
       Months_in_Report = ''3'', Report_Expiry_Date = ''2000.01.01'',
       Own_Investor_Link = ''http'', Stock_Exchange_Link = ''http''\<rparr>]
     Registry_init =
   Inr (Error_errors_found,
        fmupd ''Errors''
          (ErrorsEntry
             \<lparr>Errors_found = True, Number_of_missing_ISINs = 1,
              Faulty_ISINs = {''12345678901''}, Missing_names = {},
              Faulty_months_in_report = {}, Faulty_report_expiry_dates = {}\<rparr>)
          fmempty)"
  by (simp add: eval_defs)

text \<open>
  C3. A new registry loads two rows with different ISINs of twelve characters and no
  fault. The registry then holds the two stock records and an error dictionary with
  no error, and the line logged counts three new ISINs: the two records and the
  entry \<^verbatim>\<open>'Errors'\<close>.
\<close>

theorem valid_batch_counts_errors_entry:
  "\<exists>self'.
     load_from_file (\<lambda>s. s = ''2000.01.01'')
       [\<lparr>ISIN = ''123456789012'', Name = ''Company'', EPS = ''12.34'',
         Months_in_Report = ''3'', Report_Expiry_Date = ''2000.01.01'',
         Own_Investor_Link = ''http'', Stock_Exchange_Link = ''http''\<rparr>,
        \<lparr>ISIN = ''ABCDEFGHIJKL'', Name = ''Other'', EPS = ''5'',
         Months_in_Report = [], Report_Expiry_Date = [],
         Own_Investor_Link = ''http'', Stock_Exchange_Link = ''http''\<rparr>]
       Registry_init = Inr (Info_new_ISIN_loaded 3, self') \<and>
     fmdom self' = {|''Errors'', ''123456789012'', ''ABCDEFGHIJKL''|} \<and>
     fmlookup self' ''Errors'' = Some (ErrorsEntry RegistryErrorDict_init) \<and>
     fmlookup self' ''123456789012'' =
       Some (StockEntry
          \<lparr>stock_Name = ''Company'', stock_EPS = Finite False 1234 (- 2),
           stock_Months_in_Report = ''3'', stock_Report_Expiry_Date = ''2000.01.01'',
           stock_Own_Investor_Link = ''http'', stock_Stock_Exchange_Link = ''http''\<rparr>) \<and>
     fmlookup self' ''ABCDEFGHIJKL'' =
       Some (StockEntry
          \<lparr>stock_Name = ''Other'', stock_EPS = Finite False 5 0,
           stock_Months_in_Report = [], stock_Report_Expiry_Date = [],
           stock_Own_Investor_Link = ''http'', stock_Stock_Exchange_Link = ''http''\<rparr>)"
  by (simp add: eval_defs) auto

end
